theory Spec2Isabelle
  imports Complex_Main
begin

section \<open>The PurpleAir accessory (src/accessory.ts)\<close>

text \<open>
  The accessory class \<^verbatim>\<open>PurpleAirSensor\<close> is embedded as a record of its fields and
  its methods as functions on that record. JavaScript numbers that hold epoch
  milliseconds are integers (\<open>int\<close>); the measured quantities are idealised as
  \<open>real\<close>, since the accessory only copies and compares them. An optional field
  (\<^verbatim>\<open>temperature?: number\<close>, \<^verbatim>\<open>key?: string\<close>) is an \<open>option\<close>,
  where \<open>None\<close> is JavaScript's \<^verbatim>\<open>undefined\<close>.
\<close>

subsection \<open>Values that cross the boundary\<close>

text \<open>A parsed JSON body (\<^verbatim>\<open>resp.data\<close>, \<^verbatim>\<open>err.response.data\<close>).\<close>

datatype json =
    JNull
  | JBool bool
  | JNum real
  | JStr string
  | JArr "json list"
  | JObj "(string \<times> json) list"

text \<open>
  What a \<^verbatim>\<open>catch\<close> clause can receive: an \<^verbatim>\<open>AxiosError\<close> with its message
  and, when the server answered, the body of \<^verbatim>\<open>err.response\<close>; a plain
  \<^verbatim>\<open>Error\<close>; a \<^verbatim>\<open>TypeError\<close> raised by the runtime.
\<close>

datatype exn =
    AxiosError string "json option"
  | Error string
  | TypeError string

text \<open>
  The canonical reading. The class lives in \<^verbatim>\<open>SensorReading.ts\<close>; the accessory
  reads exactly these members of it.
\<close>

record SensorReading =
  updateTimeMs :: int
  pm25 :: real
  aqi :: real
  airQualityHomekitReading :: real
  temperature :: "real option"
  humidity :: real
  voc :: "real option"

text \<open>
  A request as \<^verbatim>\<open>axiosInstance.get(url, request_config)\<close> sends it: the URL, the
  headers this code puts into \<^verbatim>\<open>defaults.headers.common\<close>, and the entries of
  \<^verbatim>\<open>request_config.params\<close> (an entry whose value is \<^verbatim>\<open>undefined\<close> is \<open>None\<close>).
\<close>

record request =
  url :: string
  headers :: "(string \<times> string) list"
  params :: "(string \<times> string option) list"

text \<open>
  A template literal is kept as the list of its parts, so that no number or object
  formatting has to be invented: literal text and interpolated strings, a number,
  \<^verbatim>\<open>JSON.stringify\<close> of a body or of the request parameters, a reading and a
  caught error.
\<close>

datatype part =
    Str string
  | Num int
  | Stringify json
  | StringifyParams "(string \<times> string option) list"
  | Reading SensorReading
  | Thrown exn

datatype level = Info | Debug | Err

text \<open>What the accessory does to the outside world, in order.\<close>

datatype effect =
    Log level "part list"
  | Get request

text \<open>The characteristics that \<^verbatim>\<open>setCharacteristic\<close> writes; \<open>None\<close> is "never set".\<close>

record characteristics =
  AirQuality :: "real option"
  PM2_5Density :: "real option"
  VOCDensity :: "real option"
  CurrentTemperature :: "real option"
  CurrentRelativeHumidity :: "real option"

text \<open>The host's \<^verbatim>\<open>AccessoryConfig\<close>, as the constructor reads it.\<close>

record AccessoryConfig =
  config_name :: string
  config_sensor :: string
  config_key :: "string option"
  config_localIPAddress :: "string option"
  config_apiReadKey :: "string option"
  config_verboseLogging :: bool
  config_updateIntervalSecs :: "int option"
  config_averages :: string
  config_conversion :: string
  config_aqiInsteadOfDensity :: "bool option"

text \<open>
  The instance. Everything but \<open>lastReading\<close> is \<^verbatim>\<open>readonly\<close> in the source; the
  three services are represented by the characteristic values they hold, \<open>timer\<close> is
  the period of the interval armed by \<^verbatim>\<open>setInterval\<close> (\<open>None\<close>: no timer, so no
  tick is ever delivered), and
  \<open>effects\<close> is the trace of log lines and requests, oldest first.
\<close>

record PurpleAirSensor =
  name :: string
  sensor :: string
  apiReadKey :: "string option"
  key :: "string option"
  localIPAddress :: "string option"
  averages :: string
  conversion :: string
  aqiInsteadOfDensity :: bool
  verboseLogging :: bool
  updateIntervalMs :: int
  lastReading :: "SensorReading option"
  services :: characteristics
  timer :: "int option"
  effects :: "effect list"

text \<open>
  \<^verbatim>\<open>parsePurpleAirJson\<close> and the reading's \<^verbatim>\<open>toString\<close> are not part of
  \<^verbatim>\<open>accessory.ts\<close>: the parser is a parameter of the model. It receives the body,
  the two selectors, the source flag and the clock, and either throws or returns a
  reading.
\<close>

type_synonym parser = "json \<Rightarrow> string \<Rightarrow> string \<Rightarrow> bool \<Rightarrow> int \<Rightarrow> exn + SensorReading"

subsection \<open>Constants\<close>

definition DEFAULT_UPDATE_INTERVAL_SECS :: int where
  "DEFAULT_UPDATE_INTERVAL_SECS = 300"

definition MIN_UPDATE_INTERVAL_MS :: int where
  "MIN_UPDATE_INTERVAL_MS = 30 * 1000"

text \<open>
  The runtime's \<^verbatim>\<open>setInterval\<close>: a delay outside \<open>1 .. 2^31 - 1\<close> milliseconds is
  replaced by 1.
\<close>

definition TIMEOUT_MAX :: int where
  "TIMEOUT_MAX = 2 ^ 31 - 1"

definition setInterval_delay :: "int \<Rightarrow> int" where
  "setInterval_delay ms = (if 1 \<le> ms \<and> ms \<le> TIMEOUT_MAX then ms else 1)"

subsection \<open>Helpers of the language\<close>

text \<open>
  Truthiness of an optional number: \<^verbatim>\<open>undefined\<close> and \<open>0\<close> are falsy. (So is
  \<^verbatim>\<open>NaN\<close>, which \<open>real\<close> does not have.)
\<close>

definition truthy :: "real option \<Rightarrow> bool" where
  "truthy v = (case v of None \<Rightarrow> False | Some x \<Rightarrow> x \<noteq> 0)"

text \<open>An optional string inside a template literal.\<close>

definition str_opt :: "string option \<Rightarrow> string" where
  "str_opt v = (case v of None \<Rightarrow> ''undefined'' | Some s \<Rightarrow> s)"

text \<open>
  Property access \<^verbatim>\<open>v.k\<close>: a \<^verbatim>\<open>TypeError\<close> on \<^verbatim>\<open>null\<close>, the member on an
  object, \<^verbatim>\<open>undefined\<close> (\<open>None\<close>) when the object lacks it or \<open>v\<close> is a primitive or an
  array (for a key that is not a built-in member).
\<close>

definition property :: "json \<Rightarrow> string \<Rightarrow> exn + json option" where
  "property v k =
     (case v of
        JNull \<Rightarrow>
          Inl (TypeError (''Cannot read properties of null (reading '' @ [CHR 0x27] @ k @
                          [CHR 0x27] @ '')''))
      | JObj kvs \<Rightarrow> Inr (map_of kvs k)
      | _ \<Rightarrow> Inr None)"

subsection \<open>Methods\<close>

text \<open>\<^verbatim>\<open>log\<close>: info when verbose logging is on, debug otherwise.\<close>

definition log_msg :: "part list \<Rightarrow> PurpleAirSensor \<Rightarrow> PurpleAirSensor" where
  "log_msg msg this =
     (if verboseLogging this
      then this\<lparr>effects := effects this @ [Log Info msg]\<rparr>
      else this\<lparr>effects := effects this @ [Log Debug msg]\<rparr>)"

text \<open>\<^verbatim>\<open>get lastReadingActive\<close>, with \<^verbatim>\<open>Date.now()\<close> as the argument \<open>now\<close>.\<close>

definition lastReadingActive :: "PurpleAirSensor \<Rightarrow> int \<Rightarrow> bool" where
  "lastReadingActive this now =
     (case lastReading this of
        Some r \<Rightarrow> updateTimeMs r > now - updateIntervalMs this
      | None \<Rightarrow> False)"

text \<open>\<^verbatim>\<open>updateHomeKit\<close>: the writes to the characteristics, in the source's order.\<close>

definition updateHomeKit :: "bool \<Rightarrow> PurpleAirSensor \<Rightarrow> PurpleAirSensor" where
  "updateHomeKit aqiInstead this =
     (case lastReading this of
        None \<Rightarrow> this
      | Some r \<Rightarrow>
          (let c1 = (services this)\<lparr>AirQuality := Some (airQualityHomekitReading r)\<rparr>;
               c2 = (if aqiInstead
                     then c1\<lparr>PM2_5Density := Some (aqi r)\<rparr>
                     else c1\<lparr>PM2_5Density := Some (pm25 r)\<rparr>);
               c3 = (if truthy (temperature r)
                     then c2\<lparr>CurrentTemperature := temperature r\<rparr>
                     else c2);
               c4 = c3\<lparr>CurrentRelativeHumidity := Some (humidity r)\<rparr>;
               c5 = (if truthy (voc r)
                     then c4\<lparr>VOCDensity := voc r\<rparr>
                     else c4)
           in this\<lparr>services := c5\<rparr>))"

text \<open>
  \<^verbatim>\<open>update\<close> is an \<^verbatim>\<open>async\<close> method: it runs synchronously up to
  \<^verbatim>\<open>await axiosInstance.get(...)\<close> and is resumed when the request settles. What the
  suspended call keeps of its local variables is a \<open>pending\<close>.
\<close>

record pending =
  pending_url :: string
  usesLocalSensor :: bool

text \<open>The URL, the source flag and the default headers chosen at the top of \<^verbatim>\<open>update\<close>.\<close>

definition source_url :: "PurpleAirSensor \<Rightarrow> string" where
  "source_url this =
     (case localIPAddress this of
        Some ip \<Rightarrow> ''http://'' @ ip @ ''/json''
      | None \<Rightarrow> ''https://api.purpleair.com/v1/sensors'' @ ''/'' @ sensor this)"

definition source_headers :: "PurpleAirSensor \<Rightarrow> (string \<times> string) list" where
  "source_headers this =
     (case localIPAddress this of
        Some ip \<Rightarrow> []
      | None \<Rightarrow>
          (case apiReadKey this of
             Some k \<Rightarrow> [(''X-API-Key'', k)]
           | None \<Rightarrow> []))"

definition source_request :: "PurpleAirSensor \<Rightarrow> request" where
  "source_request this =
     \<lparr>url = source_url this,
      headers = source_headers this,
      params = [(''read_key'', key this)]\<rparr>"

text \<open>
  What axios renders into the query string: a parameter whose value is
  \<^verbatim>\<open>undefined\<close> is left out.
\<close>

definition rendered_params :: "(string \<times> string option) list \<Rightarrow> (string \<times> string) list" where
  "rendered_params ps =
     concat (map (\<lambda>(k, v). case v of None \<Rightarrow> [] | Some s \<Rightarrow> [(k, s)]) ps)"

definition source_pending :: "PurpleAirSensor \<Rightarrow> pending" where
  "source_pending this =
     \<lparr>pending_url = source_url this,
      usesLocalSensor = (localIPAddress this \<noteq> None)\<rparr>"

text \<open>
  Sending the request: \<^verbatim>\<open>axiosInstance.get\<close> is called (the effect \<open>Get\<close>), the
  request interceptor logs it, and the call is suspended on the answer. The
  interceptor's line is placed right after the call that causes it.
\<close>

definition send_request :: "PurpleAirSensor \<Rightarrow> PurpleAirSensor \<times> pending option" where
  "send_request this =
     (log_msg [Str ''Fetching url '', Str (url (source_request this)), Str '' with params '',
               StringifyParams (params (source_request this))]
        (this\<lparr>effects := effects this @ [Get (source_request this)]\<rparr>),
      Some (source_pending this))"

text \<open>
  The synchronous part of \<^verbatim>\<open>update\<close>: either the rate guard returns early, or the
  request is sent. The two calls of \<^verbatim>\<open>Date.now()\<close> on the skipping path are one
  reading \<open>now\<close> of the clock.
\<close>

definition update :: "PurpleAirSensor \<Rightarrow> int \<Rightarrow> PurpleAirSensor \<times> pending option" where
  "update this now =
     (case lastReading this of
        Some r \<Rightarrow>
          (if updateTimeMs r > now - MIN_UPDATE_INTERVAL_MS
           then (log_msg [Str ''Skipping a fetch because the last update was '',
                          Num (now - updateTimeMs r), Str '' ms ago''] this, None)
           else send_request this)
      | None \<Rightarrow> send_request this)"

text \<open>
  The body of the \<^verbatim>\<open>try\<close> block up to the assignment of \<open>lastReading\<close>: the value
  assigned, or what is thrown. \<open>settled\<close> is how the request ended (rejected with an
  error, or resolved with \<^verbatim>\<open>resp.data\<close>), \<open>now\<close> the clock when the call resumes.
\<close>

definition try_body ::
  "parser \<Rightarrow> PurpleAirSensor \<Rightarrow> pending \<Rightarrow> exn + json \<Rightarrow> int \<Rightarrow> exn + SensorReading" where
  "try_body parse this p settled now =
     (case settled of
        Inl err \<Rightarrow> Inl err
      | Inr data \<Rightarrow>
          (if usesLocalSensor p
           then parse data (averages this) (conversion this) (usesLocalSensor p) now
           else
             (case property data ''sensor'' of
                Inl err \<Rightarrow> Inl err
              | Inr None \<Rightarrow>
                  Inl (Error (''No sensor found with ID '' @ sensor this @
                              '' and API key '' @ str_opt (key this)))
              | Inr (Some v) \<Rightarrow>
                  parse data (averages this) (conversion this) (usesLocalSensor p) now)))"

text \<open>The \<^verbatim>\<open>catch\<close> clause.\<close>

definition catch_clause :: "PurpleAirSensor \<Rightarrow> pending \<Rightarrow> exn \<Rightarrow> PurpleAirSensor" where
  "catch_clause this p err =
     (let logged =
            (case err of
               AxiosError m (Some data) \<Rightarrow>
                 this\<lparr>effects := effects this @
                   [Log Err [Str ''Error fetching '', Str (pending_url p), Str '': '', Stringify data]]\<rparr>
             | _ \<Rightarrow>
                 this\<lparr>effects := effects this @
                   [Log Err [Str ''Error fetching '', Str (pending_url p), Str '': '', Thrown err]]\<rparr>)
      in updateHomeKit (aqiInsteadOfDensity this) (logged\<lparr>lastReading := None\<rparr>))"

text \<open>The rest of \<^verbatim>\<open>update\<close>, run when the awaited request has settled.\<close>

definition update_resume ::
  "parser \<Rightarrow> PurpleAirSensor \<Rightarrow> pending \<Rightarrow> exn + json \<Rightarrow> int \<Rightarrow> PurpleAirSensor" where
  "update_resume parse this p settled now =
     (case try_body parse this p settled now of
        Inr r \<Rightarrow>
          updateHomeKit (aqiInsteadOfDensity this)
            (log_msg [Str ''Received new sensor reading '', Reading r, Str '' for sensor '', Str (sensor this)]
               (this\<lparr>lastReading := Some r\<rparr>))
      | Inl err \<Rightarrow> catch_clause this p err)"

text \<open>The handler of a \<^verbatim>\<open>StatusActive\<close> GET (the same on all three services).\<close>

definition statusActiveGet ::
  "PurpleAirSensor \<Rightarrow> int \<Rightarrow> (PurpleAirSensor \<times> pending option) \<times> bool" where
  "statusActiveGet this now =
     (case lastReading this of
        Some r \<Rightarrow>
          (let started = update this now
           in (started, lastReadingActive (fst started) now))
      | None \<Rightarrow> ((this, None), False))"

text \<open>The constructor: the fields, the log line, the timer, the first \<^verbatim>\<open>update\<close>.\<close>

definition constructed :: "AccessoryConfig \<Rightarrow> PurpleAirSensor" where
  "constructed config =
     (let interval =
            (case config_updateIntervalSecs config of
               Some secs \<Rightarrow>
                 (if secs \<noteq> 0 then secs * 1000 else DEFAULT_UPDATE_INTERVAL_SECS * 1000)
             | None \<Rightarrow> DEFAULT_UPDATE_INTERVAL_SECS * 1000)
      in \<lparr>name = config_name config,
          sensor = config_sensor config,
          apiReadKey = config_apiReadKey config,
          key = config_key config,
          localIPAddress = config_localIPAddress config,
          averages = config_averages config,
          conversion = config_conversion config,
          aqiInsteadOfDensity =
            (case config_aqiInsteadOfDensity config of Some b \<Rightarrow> b | None \<Rightarrow> False),
          verboseLogging = config_verboseLogging config,
          updateIntervalMs = interval,
          lastReading = None,
          services = \<lparr>AirQuality = None, PM2_5Density = None, VOCDensity = None,
                      CurrentTemperature = None, CurrentRelativeHumidity = None\<rparr>,
          timer = Some (setInterval_delay interval),
          effects =
            [Log Info [Str ''Initializing PurpleAirSensor '', Str (config_name config), Str '' '',
                       Str (config_sensor config), Str '' update every '', Num interval,
                       Str '' ms using '', Str (config_averages config), Str '' averages and '',
                       Str (config_conversion config), Str '' conversion'']]\<rparr>)"

definition constructor :: "AccessoryConfig \<Rightarrow> int \<Rightarrow> PurpleAirSensor \<times> pending option" where
  "constructor config now = update (constructed config) now"

text \<open>
  The life of an instance: the interval fires, the host asks for \<^verbatim>\<open>StatusActive\<close>,
  a pending request settles. Each is one turn of the event loop. A tick runs the
  callback \<^verbatim>\<open>() => { this.update(); }\<close> only while the interval is armed.
\<close>

datatype event =
    TimerTick int
  | StatusActiveGet int
  | FetchSettled pending "exn + json" int

definition step :: "parser \<Rightarrow> PurpleAirSensor \<Rightarrow> event \<Rightarrow> PurpleAirSensor" where
  "step parse this ev =
     (case ev of
        TimerTick now \<Rightarrow>
          (case timer this of
             Some period \<Rightarrow> fst (update this now)
           | None \<Rightarrow> this)
      | StatusActiveGet now \<Rightarrow> fst (fst (statusActiveGet this now))
      | FetchSettled p settled now \<Rightarrow> update_resume parse this p settled now)"

fun run :: "parser \<Rightarrow> PurpleAirSensor \<Rightarrow> event list \<Rightarrow> PurpleAirSensor" where
  "run parse this [] = this"
| "run parse this (ev # evs) = run parse (step parse this ev) evs"

section \<open>The density to AQI conversion\<close>

text \<open>
  Modelled from the spec: \<^verbatim>\<open>densityToAqi\<close> and its breakpoint table live in
  \<^verbatim>\<open>SensorReading.ts\<close>, which is not among the sources. The specification gives the
  interpolation formula, the treatment of values outside the table and the
  representation of the table as an ordered array of
  \<open>(concLow, concHigh, aqiLow, aqiHigh)\<close> tuples scanned linearly; it does not give the
  entries, so the table is a parameter.
\<close>

record bracket =
  concLow :: real
  concHigh :: real
  aqiLow :: real
  aqiHigh :: real

text \<open>
  Modelled from the spec: the interpolation formula
  \<open>((aqiHigh - aqiLow) / (concHigh - concLow)) * (pm25 - concLow) + aqiLow\<close>. A bracket
  of width zero makes the quotient infinite or not a number; that outcome is \<open>None\<close>.
\<close>

definition interpolate :: "bracket \<Rightarrow> real \<Rightarrow> real option" where
  "interpolate b p =
     (if concHigh b - concLow b = 0 then None
      else Some (((aqiHigh b - aqiLow b) / (concHigh b - concLow b)) * (p - concLow b)
                 + aqiLow b))"

text \<open>
  Modelled from the spec: the linear scan for the bracket containing \<open>p\<close>. A value above
  the top bracket is extrapolated with the top bracket's formula.
\<close>

fun scan :: "bracket list \<Rightarrow> real \<Rightarrow> real option" where
  "scan [] p = None"
| "scan [b] p = interpolate b p"
| "scan (b # b' # bs) p = (if p \<le> concHigh b then interpolate b p else scan (b' # bs) p)"

text \<open>
  Modelled from the spec: \<^verbatim>\<open>densityToAqi\<close>. A value below the lowest bracket is
  floored to the start of that bracket before its formula is applied.
\<close>

definition densityToAqi :: "bracket list \<Rightarrow> real \<Rightarrow> real option" where
  "densityToAqi table p =
     (case table of
        [] \<Rightarrow> None
      | b # bs \<Rightarrow> (if p < concLow b then interpolate b (concLow b) else scan table p))"

text \<open>
  Modelled from the spec: what an "EPA-style breakpoint table" is taken to be. Every
  bracket has positive width and does not descend, each bracket starts at or after the
  end of the one before and does not fall below it there, and the first bracket starts
  at density 0 with index 0.
\<close>

definition proper :: "bracket \<Rightarrow> bool" where
  "proper b = (concLow b < concHigh b \<and> aqiLow b \<le> aqiHigh b)"

fun ascending :: "bracket list \<Rightarrow> bool" where
  "ascending [] = True"
| "ascending [b] = True"
| "ascending (b # b' # bs) =
     (concHigh b \<le> concLow b' \<and>
      (case interpolate b' (concHigh b) of None \<Rightarrow> False | Some a \<Rightarrow> aqiHigh b \<le> a) \<and>
      ascending (b' # bs))"

definition breakpoint_table :: "bracket list \<Rightarrow> bool" where
  "breakpoint_table table =
     (case table of
        [] \<Rightarrow> False
      | b # bs \<Rightarrow> concLow b = 0 \<and> aqiLow b = 0 \<and> list_all proper table \<and> ascending table)"

text \<open>The PM2.5 breakpoints of the EPA table with which 12.3 maps to about 51.\<close>

definition epa_pm25_table :: "bracket list" where
  "epa_pm25_table =
     [\<lparr>concLow = 0, concHigh = 12, aqiLow = 0, aqiHigh = 50\<rparr>,
      \<lparr>concLow = 12.1, concHigh = 35.4, aqiLow = 51, aqiHigh = 100\<rparr>,
      \<lparr>concLow = 35.5, concHigh = 55.4, aqiLow = 101, aqiHigh = 150\<rparr>,
      \<lparr>concLow = 55.5, concHigh = 150.4, aqiLow = 151, aqiHigh = 200\<rparr>,
      \<lparr>concLow = 150.5, concHigh = 250.4, aqiLow = 201, aqiHigh = 300\<rparr>,
      \<lparr>concLow = 250.5, concHigh = 350.4, aqiLow = 301, aqiHigh = 400\<rparr>,
      \<lparr>concLow = 350.5, concHigh = 500.4, aqiLow = 401, aqiHigh = 500\<rparr>]"

section \<open>Example instances\<close>

text \<open>A cloud sensor with both keys, and the same accessory pointed at a local device.\<close>

definition cloud_config :: AccessoryConfig where
  "cloud_config =
     \<lparr>config_name = ''Patio'',
      config_sensor = ''12345'',
      config_key = Some ''RK'',
      config_localIPAddress = None,
      config_apiReadKey = Some ''AK'',
      config_verboseLogging = False,
      config_updateIntervalSecs = None,
      config_averages = ''realtime'',
      config_conversion = ''None'',
      config_aqiInsteadOfDensity = None\<rparr>"

definition local_config :: AccessoryConfig where
  "local_config = cloud_config\<lparr>config_localIPAddress := Some ''192.168.1.20''\<rparr>"

definition reading_at :: "int \<Rightarrow> SensorReading" where
  "reading_at t =
     \<lparr>updateTimeMs = t, pm25 = 12.3, aqi = 51, airQualityHomekitReading = 2,
      temperature = Some 0, humidity = 45, voc = Some 0\<rparr>"

text \<open>The same accessories holding a reading taken at time \<open>t\<close>.\<close>

definition cached :: "AccessoryConfig \<Rightarrow> int \<Rightarrow> PurpleAirSensor" where
  "cached config t = (constructed config)\<lparr>lastReading := Some (reading_at t)\<rparr>"

text \<open>A parser that rejects everything, and one that accepts everything.\<close>

definition failing_parser :: parser where
  "failing_parser data avg conv isLocal now = Inl (Error ''missing field'')"

definition constant_parser :: parser where
  "constant_parser data avg conv isLocal now = Inr (reading_at now)"

text \<open>The cloud accessory after one successful attempt that settled at time 5000.\<close>

definition after_success :: PurpleAirSensor where
  "after_success =
     update_resume constant_parser (constructed cloud_config)
       (source_pending (constructed cloud_config)) (Inr (JObj [(''sensor'', JObj [])])) 5000"

text \<open>The rejection of a request that the server answered with status 404.\<close>

definition not_found :: exn where
  "not_found = AxiosError ''Request failed with status code 404'' (Some (JStr ''Not Found''))"

text \<open>Characteristic values surfaced by an earlier reading.\<close>

definition warm_services :: characteristics where
  "warm_services =
     \<lparr>AirQuality = Some 1, PM2_5Density = Some 3, VOCDensity = Some 7,
      CurrentTemperature = Some 21, CurrentRelativeHumidity = Some 40\<rparr>"

section \<open>Frame lemmas\<close>

text \<open>What each method leaves alone, and the methods in closed form.\<close>

lemmas example_defs =
  cached_def constructed_def cloud_config_def local_config_def reading_at_def
  DEFAULT_UPDATE_INTERVAL_SECS_def setInterval_delay_def TIMEOUT_MAX_def

lemma log_msg_frame:
  "lastReading (log_msg m this) = lastReading this"
  "services (log_msg m this) = services this"
  "timer (log_msg m this) = timer this"
  "updateIntervalMs (log_msg m this) = updateIntervalMs this"
  "aqiInsteadOfDensity (log_msg m this) = aqiInsteadOfDensity this"
  by (simp_all add: log_msg_def)

lemma updateHomeKit_frame:
  "lastReading (updateHomeKit b this) = lastReading this"
  "timer (updateHomeKit b this) = timer this"
  "effects (updateHomeKit b this) = effects this"
  by (simp_all add: updateHomeKit_def Let_def split: option.splits)

lemma updateHomeKit_None: "lastReading this = None \<Longrightarrow> updateHomeKit b this = this"
  by (simp add: updateHomeKit_def)

lemma send_request_frame:
  "lastReading (fst (send_request this)) = lastReading this"
  "services (fst (send_request this)) = services this"
  "timer (fst (send_request this)) = timer this"
  "updateIntervalMs (fst (send_request this)) = updateIntervalMs this"
  by (simp_all add: send_request_def log_msg_frame)

lemma update_frame:
  "lastReading (fst (update this now)) = lastReading this"
  "services (fst (update this now)) = services this"
  "timer (fst (update this now)) = timer this"
  "updateIntervalMs (fst (update this now)) = updateIntervalMs this"
  by (simp_all add: update_def send_request_frame log_msg_frame split: option.splits)

lemma catch_clause_eq:
  "catch_clause this p err =
     this\<lparr>effects := effects this @
            [Log Err [Str ''Error fetching '', Str (pending_url p), Str '': '',
                      (case err of
                         AxiosError m (Some data) \<Rightarrow> Stringify data
                       | _ \<Rightarrow> Thrown err)]],
          lastReading := None\<rparr>"
  by (simp add: catch_clause_def updateHomeKit_None split: exn.splits option.splits)

lemma timer_update_resume: "timer (update_resume parse this p settled now) = timer this"
  by (simp add: update_resume_def catch_clause_eq updateHomeKit_frame log_msg_frame
      split: sum.splits)

lemma timer_step: "timer (step parse this ev) = timer this"
  by (cases ev)
     (simp_all add: step_def statusActiveGet_def update_frame timer_update_resume Let_def
        split: option.splits)

lemma timer_run: "timer (run parse this evs) = timer this"
  by (induction evs arbitrary: this) (simp_all add: timer_step)

lemma try_body_rejected: "try_body parse this p (Inl err) now = Inl err"
  by (simp add: try_body_def)

lemma lastReading_constructed: "lastReading (constructed config) = None"
  by (simp add: constructed_def Let_def)

lemma update_no_reading: "lastReading this = None \<Longrightarrow> update this now = send_request this"
  by (simp add: update_def)

lemma send_request_eq:
  "send_request this =
     (this\<lparr>effects := effects this @
         [Get (source_request this),
          Log (if verboseLogging this then Info else Debug)
            [Str ''Fetching url '', Str (url (source_request this)),
             Str '' with params '', StringifyParams (params (source_request this))]]\<rparr>,
      Some (source_pending this))"
  by (simp add: send_request_def log_msg_def)

lemma lastReading_failed:
  "try_body parse this p settled t = Inl err \<Longrightarrow>
     lastReading (update_resume parse this p settled t) = None"
  by (simp add: update_resume_def catch_clause_eq)

lemma updateHomeKit_readonly:
  "sensor (updateHomeKit b this) = sensor this"
  "key (updateHomeKit b this) = key this"
  "apiReadKey (updateHomeKit b this) = apiReadKey this"
  "localIPAddress (updateHomeKit b this) = localIPAddress this"
  "verboseLogging (updateHomeKit b this) = verboseLogging this"
  "updateIntervalMs (updateHomeKit b this) = updateIntervalMs this"
  by (simp_all add: updateHomeKit_def Let_def split: option.splits)

lemma update_resume_readonly:
  "sensor (update_resume parse this p settled t) = sensor this"
  "key (update_resume parse this p settled t) = key this"
  "apiReadKey (update_resume parse this p settled t) = apiReadKey this"
  "localIPAddress (update_resume parse this p settled t) = localIPAddress this"
  "verboseLogging (update_resume parse this p settled t) = verboseLogging this"
  "updateIntervalMs (update_resume parse this p settled t) = updateIntervalMs this"
  by (simp_all add: update_resume_def catch_clause_eq updateHomeKit_readonly log_msg_def
      split: sum.splits)

lemma source_update_resume:
  "source_request (update_resume parse this p settled t) = source_request this"
  "source_pending (update_resume parse this p settled t) = source_pending this"
  by (simp_all add: source_request_def source_pending_def source_url_def source_headers_def
      update_resume_readonly cong: option.case_cong)

lemma try_body_flag:
  "try_body parse (this\<lparr>aqiInsteadOfDensity := b\<rparr>) p settled now = try_body parse this p settled now"
  by (simp add: try_body_def split: sum.splits option.splits)

lemma update_effects:
  "effects (fst (update this now)) = effects this @ new \<Longrightarrow>
   Get q \<in> set new \<Longrightarrow> q = source_request this"
  by (auto simp: update_def send_request_eq log_msg_def split: option.splits if_splits)

lemma after_success_eq:
  "after_success =
     (constructed cloud_config)
       \<lparr>lastReading := Some (reading_at 5000),
        effects := effects (constructed cloud_config) @
          [Log Debug [Str ''Received new sensor reading '', Reading (reading_at 5000),
                      Str '' for sensor '', Str ''12345'']],
        services := \<lparr>AirQuality = Some 2, PM2_5Density = Some 12.3, VOCDensity = None,
                     CurrentTemperature = None, CurrentRelativeHumidity = Some 45\<rparr>\<rparr>"
  by (simp add: after_success_def update_resume_def try_body_def property_def
      constant_parser_def source_pending_def updateHomeKit_def Let_def truthy_def log_msg_def
      example_defs)

lemma statusActiveGet_None:
  "lastReading this = None \<Longrightarrow> statusActiveGet this now = ((this, None), False)"
  by (simp add: statusActiveGet_def)

lemma step_tick_armed:
  "timer this = Some period \<Longrightarrow> step parse this (TimerTick now) = fst (update this now)"
  by (simp add: step_def)

subsection \<open>The interpolation and the scan\<close>

lemma interpolate_proper:
  "proper b \<Longrightarrow>
     interpolate b p =
       Some (((aqiHigh b - aqiLow b) / (concHigh b - concLow b)) * (p - concLow b) + aqiLow b)"
  by (simp add: interpolate_def proper_def)

lemma interpolate_mono:
  assumes "proper b" and "p \<le> q"
    and "interpolate b p = Some a" and "interpolate b q = Some c"
  shows "a \<le> c"
proof -
  have slope: "0 \<le> (aqiHigh b - aqiLow b) / (concHigh b - concLow b)"
    using assms(1) by (simp add: proper_def)
  have "((aqiHigh b - aqiLow b) / (concHigh b - concLow b)) * (p - concLow b)
          \<le> ((aqiHigh b - aqiLow b) / (concHigh b - concLow b)) * (q - concLow b)"
    using slope assms(2) by (intro mult_left_mono) simp_all
  then show ?thesis
    using assms(3,4) by (simp add: interpolate_proper [OF assms(1)])
qed

lemma interpolate_at_concHigh: "proper b \<Longrightarrow> interpolate b (concHigh b) = Some (aqiHigh b)"
  by (simp add: interpolate_proper) (simp add: proper_def)

lemma interpolate_at_concLow: "proper b \<Longrightarrow> interpolate b (concLow b) = Some (aqiLow b)"
  by (simp add: interpolate_proper)

lemma scan_total: "list_all proper t \<Longrightarrow> t \<noteq> [] \<Longrightarrow> \<exists>a. scan t p = Some a"
  by (induction t p rule: scan.induct) (simp_all add: interpolate_proper)

lemma scan_head:
  "proper b \<Longrightarrow> p \<le> concHigh b \<Longrightarrow> scan (b # bs) p = interpolate b p"
  by (cases bs) simp_all

lemma scan_mono:
  "list_all proper t \<Longrightarrow> ascending t \<Longrightarrow> p \<le> q \<Longrightarrow>
     scan t p = Some a \<Longrightarrow> scan t q = Some c \<Longrightarrow> a \<le> c"
proof (induction t arbitrary: p q a c rule: ascending.induct)
  case 1
  then show ?case by simp
next
  case (2 b)
  then show ?case by (auto intro: interpolate_mono)
next
  case (3 b b' bs)
  from "3.prems" have pb: "proper b" and pb': "proper b'"
    and rest: "list_all proper (b' # bs)" "ascending (b' # bs)"
    and gap: "concHigh b \<le> concLow b'"
    by simp_all
  from "3.prems"(2) obtain j where j: "interpolate b' (concHigh b) = Some j" "aqiHigh b \<le> j"
    by (auto split: option.splits)
  have start: "scan (b' # bs) (concHigh b) = Some j"
    using pb' gap j(1) by (simp add: scan_head proper_def)
  consider "q \<le> concHigh b" | "p \<le> concHigh b" "concHigh b < q" | "concHigh b < p"
    by linarith
  then show ?case
  proof cases
    case 1
    with "3.prems" pb show ?thesis by (auto intro: interpolate_mono)
  next
    case 2
    with "3.prems" have a: "interpolate b p = Some a" and c: "scan (b' # bs) q = Some c"
      by simp_all
    have "a \<le> aqiHigh b"
      using interpolate_mono [OF pb 2(1) a interpolate_at_concHigh [OF pb]] .
    also have "\<dots> \<le> j" by (rule j(2))
    also have "j \<le> c"
      using "3.IH" [OF rest _ start c] 2(2) by simp
    finally show ?thesis .
  next
    case 3
    with "3.prems" have "scan (b' # bs) p = Some a" "scan (b' # bs) q = Some c"
      by simp_all
    then show ?thesis using "3.IH" [OF rest "3.prems"(3)] by simp
  qed
qed

lemma densityToAqi_scan:
  assumes "proper b"
  shows "densityToAqi (b # bs) p = scan (b # bs) (max p (concLow b))"
proof (cases "p < concLow b")
  case True
  have "concLow b \<le> concHigh b" using assms by (simp add: proper_def)
  then have "scan (b # bs) (concLow b) = interpolate b (concLow b)"
    using assms by (rule_tac scan_head)
  moreover have "max p (concLow b) = concLow b" using True by simp
  moreover have "densityToAqi (b # bs) p = interpolate b (concLow b)"
    using True by (simp add: densityToAqi_def)
  ultimately show ?thesis by simp
next
  case False
  then have "max p (concLow b) = p" by simp
  moreover have "densityToAqi (b # bs) p = scan (b # bs) p"
    using False by (simp add: densityToAqi_def)
  ultimately show ?thesis by simp
qed

lemma epa_table_ok: "breakpoint_table epa_pm25_table"
  by (simp add: breakpoint_table_def epa_pm25_table_def proper_def interpolate_def)

lemma epa_values:
  "densityToAqi epa_pm25_table 12 = Some 50"
  "densityToAqi epa_pm25_table 12.3 = Some (11981 / 233)"
  "densityToAqi epa_pm25_table 600 = Some (848104 / 1499)"
  "densityToAqi epa_pm25_table (-1) = Some 0"
  by (simp_all add: densityToAqi_def epa_pm25_table_def interpolate_def)

section \<open>Freshness\<close>

text \<open>
  C1. With a reading present, \<open>lastReadingActive\<close> is true exactly when
  \<open>now - lastReading.updateTimeMs < updateIntervalMs\<close>; with no reading it is false.
\<close>

theorem lastReadingActive_iff:
  "(lastReading this = Some r \<longrightarrow>
      lastReadingActive this now = (now - updateTimeMs r < updateIntervalMs this)) \<and>
   (lastReading this = None \<longrightarrow> \<not> lastReadingActive this now)"
  by (auto simp: lastReadingActive_def)

theorem lastReadingActive_iff_witness:
  "lastReading (cached cloud_config 1000) = Some (reading_at 1000) \<and>
   updateIntervalMs (cached cloud_config 1000) = 300000 \<and>
   lastReadingActive (cached cloud_config 1000) 300999 \<and>
   \<not> lastReadingActive (cached cloud_config 1000) 301000 \<and>
   lastReading (constructed cloud_config) = None \<and>
   \<not> lastReadingActive (constructed cloud_config) 301000"
  using lastReadingActive_iff [of "cached cloud_config 1000" "reading_at 1000" 300999]
    lastReadingActive_iff [of "cached cloud_config 1000" "reading_at 1000" 301000]
    lastReadingActive_iff [of "constructed cloud_config" "reading_at 1000" 301000]
  by (simp add: example_defs)

section \<open>The rate guard\<close>

text \<open>
  C2. When a reading exists and is younger than the fixed 30000 ms, \<open>update\<close> returns
  at once: no request is sent, nothing is left pending, and the instance is unchanged
  but for the debug or info line that reports the skip.
\<close>

theorem update_skips_when_recent:
  assumes "lastReading this = Some r" and "now - updateTimeMs r < 30000"
  shows "update this now =
           (this\<lparr>effects := effects this @
              [Log (if verboseLogging this then Info else Debug)
                 [Str ''Skipping a fetch because the last update was '',
                  Num (now - updateTimeMs r), Str '' ms ago'']]\<rparr>, None)"
  using assms by (simp add: update_def MIN_UPDATE_INTERVAL_MS_def log_msg_def)

theorem update_skips_when_recent_witness:
  "lastReading (cached cloud_config 1000) = Some (reading_at 1000) \<and>
   30999 - updateTimeMs (reading_at 1000) < 30000 \<and>
   update (cached cloud_config 1000) 30999 =
     ((cached cloud_config 1000)\<lparr>effects := effects (cached cloud_config 1000) @
         [Log Debug [Str ''Skipping a fetch because the last update was '',
                     Num 29999, Str '' ms ago'']]\<rparr>, None)"
  using update_skips_when_recent [of "cached cloud_config 1000" "reading_at 1000" 30999]
  by (simp add: example_defs)

text \<open>
  C9. With no reading the guard never skips: \<open>update\<close> sends the request whatever the
  clock says. This is the state right after construction and the state a failed
  attempt leaves, so a retry after a failure is never rate limited.
\<close>

theorem no_reading_no_skip:
  "(lastReading this = None \<longrightarrow>
      update this now =
        (this\<lparr>effects := effects this @
            [Get (source_request this),
             Log (if verboseLogging this then Info else Debug)
               [Str ''Fetching url '', Str (url (source_request this)),
                Str '' with params '', StringifyParams (params (source_request this))]]\<rparr>,
         Some (source_pending this))) \<and>
   snd (update (constructed config) now) = Some (source_pending (constructed config)) \<and>
   (try_body parse this p settled t = Inl err \<longrightarrow>
      snd (update (update_resume parse this p settled t) now) = Some (source_pending this) \<and>
      Get (source_request this)
        \<in> set (effects (fst (update (update_resume parse this p settled t) now))))"
proof (intro conjI impI)
  assume "lastReading this = None"
  then show "update this now =
        (this\<lparr>effects := effects this @
            [Get (source_request this),
             Log (if verboseLogging this then Info else Debug)
               [Str ''Fetching url '', Str (url (source_request this)),
                Str '' with params '', StringifyParams (params (source_request this))]]\<rparr>,
         Some (source_pending this))"
    by (simp add: update_no_reading send_request_eq)
next
  show "snd (update (constructed config) now) = Some (source_pending (constructed config))"
    by (simp add: update_no_reading lastReading_constructed send_request_eq)
next
  assume failed: "try_body parse this p settled t = Inl err"
  let ?after = "update_resume parse this p settled t"
  have upd: "update ?after now = send_request ?after"
    by (rule update_no_reading) (rule lastReading_failed [OF failed])
  show "snd (update ?after now) = Some (source_pending this)"
    by (simp add: upd send_request_eq source_update_resume)
  show "Get (source_request this) \<in> set (effects (fst (update ?after now)))"
    by (simp add: upd send_request_eq source_update_resume)
qed

theorem no_reading_no_skip_witness:
  "lastReading (constructed cloud_config) = None \<and>
   update (constructed cloud_config) 0 =
     ((constructed cloud_config)\<lparr>effects := effects (constructed cloud_config) @
         [Get \<lparr>url = ''https://api.purpleair.com/v1/sensors/12345'',
               headers = [(''X-API-Key'', ''AK'')],
               params = [(''read_key'', Some ''RK'')]\<rparr>,
          Log Debug
            [Str ''Fetching url '', Str ''https://api.purpleair.com/v1/sensors/12345'',
             Str '' with params '', StringifyParams [(''read_key'', Some ''RK'')]]]\<rparr>,
      Some \<lparr>pending_url = ''https://api.purpleair.com/v1/sensors/12345'',
            usesLocalSensor = False\<rparr>) \<and>
   try_body failing_parser (cached local_config 1000) (source_pending (cached local_config 1000))
     (Inr (JObj [])) 1000 = Inl (Error ''missing field'') \<and>
   snd (update (update_resume failing_parser (cached local_config 1000)
                  (source_pending (cached local_config 1000)) (Inr (JObj [])) 1000) 1000)
     = Some \<lparr>pending_url = ''http://192.168.1.20/json'', usesLocalSensor = True\<rparr>"
  using no_reading_no_skip [of "constructed cloud_config" 0 cloud_config failing_parser
      "source_pending (constructed cloud_config)" "Inr (JObj [])" 0 "Error ''missing field''"]
    no_reading_no_skip [of "cached local_config 1000" 1000 cloud_config failing_parser
      "source_pending (cached local_config 1000)" "Inr (JObj [])" 1000 "Error ''missing field''"]
  by (simp add: try_body_def failing_parser_def source_pending_def source_request_def
      source_url_def source_headers_def example_defs)

section \<open>Failure of an attempt\<close>

text \<open>
  C3, as stated, fails: the host is not shown the cleared state. After a successful
  attempt has surfaced its values, a rejected request clears the reading, but every
  characteristic keeps the value of the earlier reading: \<open>updateHomeKit\<close> is called
  on an instance without a reading and writes nothing.
\<close>

theorem failure_keeps_host_values_counterexample:
  "lastReading after_success = Some (reading_at 5000) \<and>
   services after_success =
     \<lparr>AirQuality = Some 2, PM2_5Density = Some 12.3, VOCDensity = None,
      CurrentTemperature = None, CurrentRelativeHumidity = Some 45\<rparr> \<and>
   try_body constant_parser after_success (source_pending after_success) (Inl not_found) 400000
     = Inl not_found \<and>
   lastReading (update_resume constant_parser after_success (source_pending after_success)
                  (Inl not_found) 400000) = None \<and>
   services (update_resume constant_parser after_success (source_pending after_success)
               (Inl not_found) 400000) =
     \<lparr>AirQuality = Some 2, PM2_5Density = Some 12.3, VOCDensity = None,
      CurrentTemperature = None, CurrentRelativeHumidity = Some 45\<rparr>"
  by (simp add: after_success_eq try_body_rejected update_resume_def catch_clause_eq)

text \<open>
  C3, amended. When the request is rejected or anything in the \<open>try\<close> block throws,
  the reading is cleared and one error line with the URL and the error detail is
  logged; nothing else changes. In particular no characteristic is written: the host
  learns of the failure only by asking for \<open>StatusActive\<close>, which answers false and
  starts no attempt. The interval stays armed over every later sequence of events, and
  its next tick, whenever it comes, sends the request again.
\<close>

theorem failure_clears_reading:
  assumes "try_body parse this (source_pending this) settled now = Inl err"
  shows "update_resume parse this (source_pending this) settled now =
           this\<lparr>effects := effects this @
                  [Log Err [Str ''Error fetching '', Str (source_url this), Str '': '',
                            (case err of
                               AxiosError m (Some data) \<Rightarrow> Stringify data
                             | _ \<Rightarrow> Thrown err)]],
                lastReading := None\<rparr> \<and>
         services (update_resume parse this (source_pending this) settled now) = services this \<and>
         (\<forall>t. statusActiveGet (update_resume parse this (source_pending this) settled now) t =
                ((update_resume parse this (source_pending this) settled now, None), False)) \<and>
         timer (update_resume parse this (source_pending this) settled now) = timer this \<and>
         (\<forall>evs. timer (run parse (update_resume parse this (source_pending this) settled now) evs)
                  = timer this) \<and>
         (\<forall>period t. timer this = Some period \<longrightarrow>
            step parse (update_resume parse this (source_pending this) settled now) (TimerTick t) =
              this\<lparr>effects := effects this @
                     [Log Err [Str ''Error fetching '', Str (source_url this), Str '': '',
                               (case err of
                                  AxiosError m (Some data) \<Rightarrow> Stringify data
                                | _ \<Rightarrow> Thrown err)],
                      Get (source_request this),
                      Log (if verboseLogging this then Info else Debug)
                        [Str ''Fetching url '', Str (url (source_request this)),
                         Str '' with params '', StringifyParams (params (source_request this))]],
                   lastReading := None\<rparr>)"
proof -
  let ?after = "update_resume parse this (source_pending this) settled now"
  let ?line = "Log Err [Str ''Error fetching '', Str (source_url this), Str '': '',
                 (case err of AxiosError m (Some data) \<Rightarrow> Stringify data | _ \<Rightarrow> Thrown err)]"
  have after: "?after = this\<lparr>effects := effects this @ [?line], lastReading := None\<rparr>"
    using assms by (simp add: update_resume_def catch_clause_eq source_pending_def)
  have none: "lastReading ?after = None"
    by (rule lastReading_failed [OF assms])
  have tick: "step parse ?after (TimerTick t) =
      this\<lparr>effects := effects this @
               [?line, Get (source_request this),
                Log (if verboseLogging this then Info else Debug)
                  [Str ''Fetching url '', Str (url (source_request this)),
                   Str '' with params '', StringifyParams (params (source_request this))]],
            lastReading := None\<rparr>"
    if armed: "timer this = Some period" for period t
  proof -
    have "timer ?after = Some period" by (simp add: timer_update_resume armed)
    then have "step parse ?after (TimerTick t) = fst (update ?after t)"
      by (rule step_tick_armed)
    also have "\<dots> = fst (send_request ?after)"
      by (simp add: update_no_reading [OF none])
    also have "\<dots> = ?after\<lparr>effects := effects ?after @
        [Get (source_request this),
         Log (if verboseLogging ?after then Info else Debug)
           [Str ''Fetching url '', Str (url (source_request this)),
            Str '' with params '', StringifyParams (params (source_request this))]]\<rparr>"
      by (simp add: send_request_eq source_update_resume)
    also have "\<dots> = this\<lparr>effects := effects this @
               [?line, Get (source_request this),
                Log (if verboseLogging this then Info else Debug)
                  [Str ''Fetching url '', Str (url (source_request this)),
                   Str '' with params '', StringifyParams (params (source_request this))]],
            lastReading := None\<rparr>"
      by (simp add: after)
    finally show ?thesis .
  qed
  show ?thesis
  proof (intro conjI allI impI)
    show "?after = this\<lparr>effects := effects this @ [?line], lastReading := None\<rparr>"
      by (rule after)
  next
    show "services ?after = services this" by (simp add: after)
  next
    fix t show "statusActiveGet ?after t = ((?after, None), False)"
      by (rule statusActiveGet_None [OF none])
  next
    show "timer ?after = timer this" by (rule timer_update_resume)
  next
    fix evs show "timer (run parse ?after evs) = timer this"
      by (simp add: timer_run timer_update_resume)
  next
    fix period t assume "timer this = Some period"
    then show "step parse ?after (TimerTick t) =
      this\<lparr>effects := effects this @
               [?line, Get (source_request this),
                Log (if verboseLogging this then Info else Debug)
                  [Str ''Fetching url '', Str (url (source_request this)),
                   Str '' with params '', StringifyParams (params (source_request this))]],
            lastReading := None\<rparr>"
      by (rule tick)
  qed
qed

theorem failure_clears_reading_witness:
  "try_body constant_parser after_success (source_pending after_success) (Inl not_found) 400000
     = Inl not_found \<and>
   timer after_success = Some 300000 \<and>
   update_resume constant_parser after_success (source_pending after_success)
       (Inl not_found) 400000 =
     after_success
       \<lparr>effects := effects after_success @
          [Log Err [Str ''Error fetching '',
                    Str ''https://api.purpleair.com/v1/sensors/12345'', Str '': '',
                    Stringify (JStr ''Not Found'')]],
        lastReading := None\<rparr> \<and>
   step constant_parser
       (update_resume constant_parser after_success (source_pending after_success)
          (Inl not_found) 400000) (TimerTick 400001) =
     after_success
       \<lparr>effects := effects after_success @
          [Log Err [Str ''Error fetching '',
                    Str ''https://api.purpleair.com/v1/sensors/12345'', Str '': '',
                    Stringify (JStr ''Not Found'')],
           Get \<lparr>url = ''https://api.purpleair.com/v1/sensors/12345'',
                 headers = [(''X-API-Key'', ''AK'')],
                 params = [(''read_key'', Some ''RK'')]\<rparr>,
           Log Debug
             [Str ''Fetching url '', Str ''https://api.purpleair.com/v1/sensors/12345'',
              Str '' with params '', StringifyParams [(''read_key'', Some ''RK'')]]],
        lastReading := None\<rparr>"
proof -
  have failed: "try_body constant_parser after_success (source_pending after_success)
      (Inl not_found) 400000 = Inl not_found"
    by (rule try_body_rejected)
  have armed: "timer after_success = Some 300000"
    by (simp add: after_success_eq example_defs)
  have src: "source_url after_success = ''https://api.purpleair.com/v1/sensors/12345''"
    "source_request after_success =
       \<lparr>url = ''https://api.purpleair.com/v1/sensors/12345'',
        headers = [(''X-API-Key'', ''AK'')], params = [(''read_key'', Some ''RK'')]\<rparr>"
    "verboseLogging after_success = False"
    by (simp_all add: after_success_eq source_request_def source_url_def source_headers_def
        example_defs)
  note inst = failure_clears_reading [OF failed]
  have cleared: "update_resume constant_parser after_success (source_pending after_success)
       (Inl not_found) 400000 =
     after_success
       \<lparr>effects := effects after_success @
          [Log Err [Str ''Error fetching '',
                    Str ''https://api.purpleair.com/v1/sensors/12345'', Str '': '',
                    Stringify (JStr ''Not Found'')]],
        lastReading := None\<rparr>"
    using inst by (simp add: src not_found_def)
  from inst have "timer after_success = Some 300000 \<longrightarrow>
      step constant_parser
        (update_resume constant_parser after_success (source_pending after_success)
           (Inl not_found) 400000) (TimerTick 400001) =
      after_success\<lparr>effects := effects after_success @
         [Log Err [Str ''Error fetching '', Str (source_url after_success), Str '': '',
                   (case not_found of
                      AxiosError m (Some data) \<Rightarrow> Stringify data
                    | _ \<Rightarrow> Thrown not_found)],
          Get (source_request after_success),
          Log (if verboseLogging after_success then Info else Debug)
            [Str ''Fetching url '', Str (url (source_request after_success)),
             Str '' with params '', StringifyParams (params (source_request after_success))]],
        lastReading := None\<rparr>"
    by blast
  then have tick: "step constant_parser
        (update_resume constant_parser after_success (source_pending after_success)
           (Inl not_found) 400000) (TimerTick 400001) =
      after_success
       \<lparr>effects := effects after_success @
          [Log Err [Str ''Error fetching '',
                    Str ''https://api.purpleair.com/v1/sensors/12345'', Str '': '',
                    Stringify (JStr ''Not Found'')],
           Get \<lparr>url = ''https://api.purpleair.com/v1/sensors/12345'',
                 headers = [(''X-API-Key'', ''AK'')],
                 params = [(''read_key'', Some ''RK'')]\<rparr>,
           Log Debug
             [Str ''Fetching url '', Str ''https://api.purpleair.com/v1/sensors/12345'',
              Str '' with params '', StringifyParams [(''read_key'', Some ''RK'')]]],
        lastReading := None\<rparr>"
    using armed by (simp add: src not_found_def)
  show ?thesis
    using failed armed cleared tick by (intro conjI)
qed

text \<open>
  C5. On the cloud path a body whose \<open>sensor\<close> member is \<^verbatim>\<open>undefined\<close> makes the
  \<open>try\<close> block throw the accessory's own "No sensor found" error: the outcome does
  not mention the parser, so the catch clause clears the reading before any
  normalisation is attempted. On the local path the check is not made and the body goes
  to the parser as it is. (A \<^verbatim>\<open>null\<close> body makes the member access itself throw;
  that error is caught in the same way, again before the parser runs.)
\<close>

theorem missing_sensor_before_parse:
  "(localIPAddress this = None \<and> property data ''sensor'' = Inr None \<longrightarrow>
      try_body parse this (source_pending this) (Inr data) now =
        Inl (Error (''No sensor found with ID '' @ sensor this @
                    '' and API key '' @ str_opt (key this))) \<and>
      update_resume parse this (source_pending this) (Inr data) now =
        this\<lparr>effects := effects this @
               [Log Err [Str ''Error fetching '',
                         Str (''https://api.purpleair.com/v1/sensors/'' @ sensor this), Str '': '',
                         Thrown (Error (''No sensor found with ID '' @ sensor this @
                                        '' and API key '' @ str_opt (key this)))]],
             lastReading := None\<rparr>) \<and>
   (localIPAddress this = None \<and> property data ''sensor'' = Inl err \<longrightarrow>
      try_body parse this (source_pending this) (Inr data) now = Inl err) \<and>
   (localIPAddress this = Some ip \<longrightarrow>
      try_body parse this (source_pending this) (Inr data) now =
        parse data (averages this) (conversion this) True now)"
  by (simp add: try_body_def update_resume_def catch_clause_eq source_pending_def
      source_url_def)

theorem missing_sensor_before_parse_witness:
  "localIPAddress (cached cloud_config 1000) = None \<and>
   property (JObj [(''error'', JStr ''NotFoundError'')]) ''sensor'' = Inr None \<and>
   update_resume constant_parser (cached cloud_config 1000)
       (source_pending (cached cloud_config 1000))
       (Inr (JObj [(''error'', JStr ''NotFoundError'')])) 400000 =
     (cached cloud_config 1000)\<lparr>effects := effects (cached cloud_config 1000) @
        [Log Err [Str ''Error fetching '',
                  Str ''https://api.purpleair.com/v1/sensors/12345'', Str '': '',
                  Thrown (Error ''No sensor found with ID 12345 and API key RK'')]],
      lastReading := None\<rparr> \<and>
   localIPAddress (cached local_config 1000) = Some ''192.168.1.20'' \<and>
   try_body constant_parser (cached local_config 1000)
       (source_pending (cached local_config 1000))
       (Inr (JObj [(''error'', JStr ''NotFoundError'')])) 400000 =
     Inr (reading_at 400000)"
  using missing_sensor_before_parse [where this = "cached cloud_config 1000"
      and data = "JObj [(''error'', JStr ''NotFoundError'')]" and parse = constant_parser
      and now = 400000 and ip = "''192.168.1.20''"]
    missing_sensor_before_parse [where this = "cached local_config 1000"
      and data = "JObj [(''error'', JStr ''NotFoundError'')]" and parse = constant_parser
      and now = 400000 and ip = "''192.168.1.20''"]
  by (simp add: property_def str_opt_def constant_parser_def example_defs)

section \<open>The request\<close>

text \<open>
  C4, as stated, fails: with a local address and a read key configured, the request sent
  to the local device carries the read key as its \<open>read_key\<close> parameter.
\<close>

theorem local_request_carries_read_key_counterexample:
  "localIPAddress (constructed local_config) = Some ''192.168.1.20'' \<and>
   key (constructed local_config) = Some ''RK'' \<and>
   Get \<lparr>url = ''http://192.168.1.20/json'', headers = [],
        params = [(''read_key'', Some ''RK'')]\<rparr>
     \<in> set (effects (fst (update (constructed local_config) 0))) \<and>
   rendered_params [(''read_key'', Some ''RK'')] = [(''read_key'', ''RK'')]"
  by (simp add: update_no_reading lastReading_constructed send_request_eq source_request_def
      source_url_def source_headers_def rendered_params_def example_defs)

text \<open>
  C4, amended. With a local address the request goes to \<open>http://<ip>/json\<close> and has
  no API key header; otherwise it goes to the cloud path ending in the sensor
  identifier, with the API key as the \<open>X-API-Key\<close> header when configured. On both
  paths the parameters are \<open>{read_key: key}\<close>, rendered exactly when the read key is
  configured; and a request added by \<open>update\<close> is always this one.
\<close>

theorem request_by_source:
  "(localIPAddress this = Some ip \<longrightarrow>
      url (source_request this) = ''http://'' @ ip @ ''/json'' \<and>
      headers (source_request this) = [] \<and>
      rendered_params (params (source_request this)) =
        (case key this of None \<Rightarrow> [] | Some k \<Rightarrow> [(''read_key'', k)])) \<and>
   (localIPAddress this = None \<longrightarrow>
      url (source_request this) = ''https://api.purpleair.com/v1/sensors/'' @ sensor this \<and>
      headers (source_request this) =
        (case apiReadKey this of None \<Rightarrow> [] | Some k \<Rightarrow> [(''X-API-Key'', k)]) \<and>
      rendered_params (params (source_request this)) =
        (case key this of None \<Rightarrow> [] | Some k \<Rightarrow> [(''read_key'', k)])) \<and>
   (\<forall>new q. effects (fst (update this now)) = effects this @ new \<and> Get q \<in> set new
      \<longrightarrow> q = source_request this)"
  by (auto simp: source_request_def source_url_def source_headers_def rendered_params_def
      dest: update_effects split: option.splits)

theorem request_by_source_witness:
  "localIPAddress (constructed local_config) = Some ''192.168.1.20'' \<and>
   source_request (constructed local_config) =
     \<lparr>url = ''http://192.168.1.20/json'', headers = [],
      params = [(''read_key'', Some ''RK'')]\<rparr> \<and>
   localIPAddress (constructed cloud_config) = None \<and>
   source_request (constructed cloud_config) =
     \<lparr>url = ''https://api.purpleair.com/v1/sensors/12345'',
      headers = [(''X-API-Key'', ''AK'')],
      params = [(''read_key'', Some ''RK'')]\<rparr> \<and>
   effects (fst (update (constructed cloud_config) 0)) =
     effects (constructed cloud_config) @
       [Get (source_request (constructed cloud_config)),
        Log Debug [Str ''Fetching url '', Str ''https://api.purpleair.com/v1/sensors/12345'',
                   Str '' with params '', StringifyParams [(''read_key'', Some ''RK'')]]]"
  using request_by_source [of "constructed local_config" "''192.168.1.20''" 0]
    request_by_source [of "constructed cloud_config" "''192.168.1.20''" 0]
  by (simp add: update_no_reading lastReading_constructed send_request_eq source_request_def
      source_url_def source_headers_def example_defs)

section \<open>The status handler\<close>

text \<open>
  C6, as stated, fails: with no cached reading the handler answers false and starts no
  poll attempt, although \<open>update\<close> itself would send a request in that state.
\<close>

theorem statusActiveGet_no_reading_counterexample:
  "lastReading (constructed cloud_config) = None \<and>
   statusActiveGet (constructed cloud_config) 1000 = ((constructed cloud_config, None), False) \<and>
   snd (update (constructed cloud_config) 1000) \<noteq> None"
  by (simp add: statusActiveGet_def lastReading_constructed update_no_reading send_request_eq)

text \<open>
  C6, amended. With a cached reading the handler runs the synchronous part of
  \<open>update\<close> (rate guard included) and answers \<open>lastReadingActive\<close> of the cached
  reading; with none it answers false and does nothing else.
\<close>

theorem statusActiveGet_cases:
  "(lastReading this = Some r \<longrightarrow>
      statusActiveGet this now = (update this now, lastReadingActive this now)) \<and>
   (lastReading this = None \<longrightarrow> statusActiveGet this now = ((this, None), False))"
  by (simp add: statusActiveGet_def Let_def lastReadingActive_def update_frame)

theorem statusActiveGet_cases_witness:
  "lastReading (cached cloud_config 1000) = Some (reading_at 1000) \<and>
   statusActiveGet (cached cloud_config 1000) 31000 =
     (((cached cloud_config 1000)\<lparr>effects := effects (cached cloud_config 1000) @
         [Get \<lparr>url = ''https://api.purpleair.com/v1/sensors/12345'',
               headers = [(''X-API-Key'', ''AK'')],
               params = [(''read_key'', Some ''RK'')]\<rparr>,
          Log Debug
            [Str ''Fetching url '', Str ''https://api.purpleair.com/v1/sensors/12345'',
             Str '' with params '', StringifyParams [(''read_key'', Some ''RK'')]]]\<rparr>,
       Some \<lparr>pending_url = ''https://api.purpleair.com/v1/sensors/12345'',
             usesLocalSensor = False\<rparr>), True) \<and>
   lastReading (constructed local_config) = None \<and>
   statusActiveGet (constructed local_config) 31000 = ((constructed local_config, None), False)"
  using statusActiveGet_cases [of "cached cloud_config 1000" "reading_at 1000" 31000]
    statusActiveGet_cases [of "constructed local_config" "reading_at 1000" 31000]
  by (simp add: update_def MIN_UPDATE_INTERVAL_MS_def send_request_eq lastReadingActive_def
      source_request_def source_pending_def source_url_def source_headers_def example_defs)

section \<open>What the host is shown\<close>

text \<open>
  C7. The flag \<open>aqiInsteadOfDensity\<close> changes nothing but the value written to
  \<open>PM2_5Density\<close>: the stored reading is the same for both settings, the
  characteristics agree everywhere else, the density shown is \<open>aqi\<close> when the flag is
  set and \<open>pm25\<close> when it is not, and the synchronous part of \<open>update\<close> does not look
  at the flag.
\<close>

theorem aqiInsteadOfDensity_only_density:
  "lastReading (update_resume parse (this\<lparr>aqiInsteadOfDensity := True\<rparr>) p settled now) =
     lastReading (update_resume parse (this\<lparr>aqiInsteadOfDensity := False\<rparr>) p settled now) \<and>
   services (update_resume parse (this\<lparr>aqiInsteadOfDensity := True\<rparr>) p settled now) =
     (services (update_resume parse (this\<lparr>aqiInsteadOfDensity := False\<rparr>) p settled now))
       \<lparr>PM2_5Density :=
          PM2_5Density (services
            (update_resume parse (this\<lparr>aqiInsteadOfDensity := True\<rparr>) p settled now))\<rparr> \<and>
   (try_body parse this p settled now = Inr r \<longrightarrow>
      PM2_5Density (services
        (update_resume parse (this\<lparr>aqiInsteadOfDensity := True\<rparr>) p settled now)) = Some (aqi r) \<and>
      PM2_5Density (services
        (update_resume parse (this\<lparr>aqiInsteadOfDensity := False\<rparr>) p settled now)) = Some (pm25 r)) \<and>
   fst (update (this\<lparr>aqiInsteadOfDensity := b\<rparr>) now) = (fst (update this now))\<lparr>aqiInsteadOfDensity := b\<rparr> \<and>
   snd (update (this\<lparr>aqiInsteadOfDensity := b\<rparr>) now) = snd (update this now)"
proof -
  have sync: "update (this\<lparr>aqiInsteadOfDensity := b\<rparr>) now =
                ((fst (update this now))\<lparr>aqiInsteadOfDensity := b\<rparr>, snd (update this now))"
    by (simp add: update_def send_request_eq log_msg_def source_request_def source_pending_def
        source_url_def source_headers_def split: option.splits)
  show ?thesis
    by (simp add: sync update_resume_def try_body_flag catch_clause_eq updateHomeKit_def
        Let_def log_msg_def split: sum.splits)
qed

theorem aqiInsteadOfDensity_only_density_witness:
  "try_body constant_parser (constructed cloud_config) (source_pending (constructed cloud_config))
     (Inr (JObj [(''sensor'', JObj [])])) 5000 = Inr (reading_at 5000) \<and>
   services (update_resume constant_parser ((constructed cloud_config)\<lparr>aqiInsteadOfDensity := True\<rparr>)
     (source_pending (constructed cloud_config)) (Inr (JObj [(''sensor'', JObj [])])) 5000) =
     \<lparr>AirQuality = Some 2, PM2_5Density = Some 51, VOCDensity = None,
      CurrentTemperature = None, CurrentRelativeHumidity = Some 45\<rparr> \<and>
   services (update_resume constant_parser ((constructed cloud_config)\<lparr>aqiInsteadOfDensity := False\<rparr>)
     (source_pending (constructed cloud_config)) (Inr (JObj [(''sensor'', JObj [])])) 5000) =
     \<lparr>AirQuality = Some 2, PM2_5Density = Some 12.3, VOCDensity = None,
      CurrentTemperature = None, CurrentRelativeHumidity = Some 45\<rparr> \<and>
   lastReading (update_resume constant_parser ((constructed cloud_config)\<lparr>aqiInsteadOfDensity := True\<rparr>)
     (source_pending (constructed cloud_config)) (Inr (JObj [(''sensor'', JObj [])])) 5000) =
     Some (reading_at 5000) \<and>
   lastReading (update_resume constant_parser ((constructed cloud_config)\<lparr>aqiInsteadOfDensity := False\<rparr>)
     (source_pending (constructed cloud_config)) (Inr (JObj [(''sensor'', JObj [])])) 5000) =
     Some (reading_at 5000)"
  using aqiInsteadOfDensity_only_density [where parse = constant_parser
      and this = "constructed cloud_config" and p = "source_pending (constructed cloud_config)"
      and settled = "Inr (JObj [(''sensor'', JObj [])])" and now = 5000
      and r = "reading_at 5000" and b = True]
  by (simp add: update_resume_def try_body_def property_def constant_parser_def
      source_pending_def updateHomeKit_def Let_def truthy_def log_msg_def example_defs)

text \<open>
  C10. With a reading present, air quality and humidity are always written; the
  temperature and the VOC density are written only when the reading's value is truthy,
  so a value of exactly 0 (or an absent one) leaves the characteristic as it was.
\<close>

theorem updateHomeKit_pushes:
  "lastReading this = Some r \<longrightarrow>
     AirQuality (services (updateHomeKit b this)) = Some (airQualityHomekitReading r) \<and>
     CurrentRelativeHumidity (services (updateHomeKit b this)) = Some (humidity r) \<and>
     CurrentTemperature (services (updateHomeKit b this)) =
       (case temperature r of
          None \<Rightarrow> CurrentTemperature (services this)
        | Some t \<Rightarrow> if t = 0 then CurrentTemperature (services this) else Some t) \<and>
     VOCDensity (services (updateHomeKit b this)) =
       (case voc r of
          None \<Rightarrow> VOCDensity (services this)
        | Some v \<Rightarrow> if v = 0 then VOCDensity (services this) else Some v)"
  by (simp add: updateHomeKit_def Let_def truthy_def split: option.splits)

theorem updateHomeKit_pushes_witness:
  "lastReading ((cached cloud_config 1000)\<lparr>services := warm_services\<rparr>) = Some (reading_at 1000) \<and>
   temperature (reading_at 1000) = Some 0 \<and> voc (reading_at 1000) = Some 0 \<and>
   services (updateHomeKit False ((cached cloud_config 1000)\<lparr>services := warm_services\<rparr>)) =
     \<lparr>AirQuality = Some 2, PM2_5Density = Some 12.3, VOCDensity = Some 7,
      CurrentTemperature = Some 21, CurrentRelativeHumidity = Some 45\<rparr>"
  using updateHomeKit_pushes [of "(cached cloud_config 1000)\<lparr>services := warm_services\<rparr>"
      "reading_at 1000" False]
  by (simp add: updateHomeKit_def Let_def truthy_def warm_services_def example_defs)

section \<open>Monotonicity of the conversion\<close>

text \<open>
  C8. For every breakpoint table, \<open>densityToAqi\<close> maps 0 to 0, yields a finite value
  for every input (below the first bracket and above the last included), and is
  non-decreasing, in particular on the inputs \<open>p \<ge> 0\<close>.
\<close>

theorem densityToAqi_monotone:
  assumes "breakpoint_table table"
  shows "densityToAqi table 0 = Some 0 \<and>
         (\<forall>p. \<exists>a. densityToAqi table p = Some a) \<and>
         (\<forall>p q a c. p \<le> q \<and> densityToAqi table p = Some a \<and> densityToAqi table q = Some c
            \<longrightarrow> a \<le> c)"
proof -
  from assms obtain b bs where table: "table = b # bs"
    and zero: "concLow b = 0" "aqiLow b = 0"
    and props: "list_all proper (b # bs)" and asc: "ascending (b # bs)"
    by (cases table) (simp_all add: breakpoint_table_def)
  from props have pb: "proper b" by simp
  have eq: "densityToAqi table p = scan (b # bs) (max p (concLow b))" for p
    unfolding table by (rule densityToAqi_scan [OF pb])
  have "scan (b # bs) 0 = interpolate b 0"
    using pb by (intro scan_head) (simp_all add: proper_def zero)
  also have "\<dots> = Some 0"
    using interpolate_at_concLow [OF pb] by (simp add: zero)
  finally have at0: "densityToAqi table 0 = Some 0"
    by (simp add: eq zero)
  have total: "\<exists>a. densityToAqi table p = Some a" for p
    unfolding eq by (rule scan_total [OF props]) simp
  have mono: "a \<le> c"
    if "p \<le> q" "densityToAqi table p = Some a" "densityToAqi table q = Some c" for p q a c
  proof -
    have le: "max p (concLow b) \<le> max q (concLow b)" using that(1) by simp
    show ?thesis
      using that(2,3) unfolding eq by (rule scan_mono [OF props asc le])
  qed
  show ?thesis
  proof (intro conjI allI impI)
    show "densityToAqi table 0 = Some 0" by (rule at0)
  next
    fix p show "\<exists>a. densityToAqi table p = Some a" by (rule total)
  next
    fix p q a c
    assume "p \<le> q \<and> densityToAqi table p = Some a \<and> densityToAqi table q = Some c"
    then show "a \<le> c" using mono by blast
  qed
qed

theorem densityToAqi_monotone_witness:
  "breakpoint_table epa_pm25_table \<and>
   densityToAqi epa_pm25_table 0 = Some 0 \<and>
   densityToAqi epa_pm25_table 12 = Some 50 \<and>
   densityToAqi epa_pm25_table 12.3 = Some (11981 / 233) \<and>
   densityToAqi epa_pm25_table 600 = Some (848104 / 1499) \<and>
   densityToAqi epa_pm25_table (-1) = Some 0 \<and>
   (50::real) \<le> 11981 / 233"
proof -
  note inst = densityToAqi_monotone [OF epa_table_ok]
  from inst have zero: "densityToAqi epa_pm25_table 0 = Some 0" by (rule conjunct1)
  from inst have "(12::real) \<le> 12.3 \<and> densityToAqi epa_pm25_table 12 = Some 50 \<and>
      densityToAqi epa_pm25_table 12.3 = Some (11981 / 233) \<longrightarrow> (50::real) \<le> 11981 / 233"
    by blast
  then have le: "(50::real) \<le> 11981 / 233" by (simp add: epa_values)
  show ?thesis using epa_table_ok zero epa_values le by simp
qed

end
